theory Spec2Isabelle
  imports Complex_Main "HOL-Library.Sublist"
begin

section \<open>Data model\<close>

text \<open>
  The repository holds two variants of one Express service: \<^verbatim>\<open>src/index.js\<close> (port 3001)
  and \<^verbatim>\<open>src/unnamed/part_000\<close> (port 3002). Both define \<^verbatim>\<open>getTransactions\<close> with an
  inner \<^verbatim>\<open>fetchTransactionWithBackoff\<close>; the inner function is the same text in both
  files. The variants differ in the address check and in how a fetched transaction is
  simplified. The model of \<^verbatim>\<open>part_000\<close> keeps the source's names; the model of
  \<^verbatim>\<open>index.js\<close> carries the suffix \<open>_index\<close>.

  A thrown JavaScript value is an \<open>error\<close>: an \<^verbatim>\<open>Error\<close>, \<^verbatim>\<open>TypeError\<close> or
  \<^verbatim>\<open>RangeError\<close> object with its \<^verbatim>\<open>message\<close>. A function that may throw returns
  \<open>error + 'a\<close>, with \<open>Inl\<close> for the thrown value. What the RPC client throws is taken
  to be such an object, so that \<^verbatim>\<open>error.message.includes\<close> is defined. \<^verbatim>\<open>null\<close> and
  \<^verbatim>\<open>undefined\<close> are \<open>None\<close>.
\<close>

datatype error =
    Error (message: string)
  | TypeError (message: string)
  | RangeError (message: string)

text \<open>An element of the array resolved by \<^verbatim>\<open>getSignaturesForAddress\<close>; the code
  reads its \<^verbatim>\<open>signature\<close> only.\<close>

record signatureInfo =
  signature :: string

text \<open>The parts of a parsed transaction the code reads. \<open>parsed_type\<close> of an instruction
  is the value of \<^verbatim>\<open>instruction.parsed?.type\<close>.\<close>

record tokenAmount =
  decimals :: nat

record tokenBalance =
  mint :: string
  uiTokenAmount :: "tokenAmount option"

record transactionMeta =
  transactionHash :: "string option"
  fee :: nat
  computeUnitsConsumed :: "nat option"
  preTokenBalances :: "tokenBalance list option"
  postTokenBalances :: "tokenBalance list option"

record instruction =
  parsed_type :: "string option"

record parsedTransaction =
  slot :: nat
  signatures :: "string list"
  instructions :: "instruction list"
  meta :: "transactionMeta option"
  blockTime :: "int option"

section \<open>Effects and external collaborators\<close>

text \<open>
  Everything the code does to the outside world is an event of a trace, in the order it
  happens: the two RPC calls, the backoff sleep (\<^verbatim>\<open>setTimeout\<close> with its delay in
  milliseconds), and the lines written with \<^verbatim>\<open>console.log\<close> and \<^verbatim>\<open>console.error\<close>.
  \<^verbatim>\<open>getParsedTransaction\<close> is always called with
  \<^verbatim>\<open>{maxSupportedTransactionVersion: 0}\<close>.
\<close>

datatype 'pk event =
    Call_getSignaturesForAddress 'pk
  | Call_getParsedTransaction string
  | Sleep rat
  | Log_max_retry string
  | Log_version_retry rat
  | Log_429_retry rat
  | Error_failed_signatures error
  | Error_failed_transaction string error

text \<open>
  The code of \<^verbatim>\<open>@solana/web3.js\<close> and of the JavaScript runtime is not part of the
  repository; it is a parameter. An RPC call is answered from the trace so far, so the
  same signature may be answered differently on each attempt. \<open>PublicKey_new\<close> is the
  constructor \<^verbatim>\<open>new PublicKey(address)\<close>, which throws on a malformed address;
  \<open>toISOString\<close> is \<^verbatim>\<open>new Date(ms).toISOString()\<close>, which throws a \<^verbatim>\<open>RangeError\<close>
  outside the range of \<^verbatim>\<open>Date\<close>.
\<close>

record 'pk externals =
  PublicKey_new :: "string \<Rightarrow> error + 'pk"
  getSignaturesForAddress :: "'pk event list \<Rightarrow> 'pk \<Rightarrow> error + signatureInfo list"
  getParsedTransaction :: "'pk event list \<Rightarrow> string \<Rightarrow> error + parsedTransaction option"
  toISOString :: "int \<Rightarrow> error + string"

section \<open>fetchTransactionWithBackoff\<close>

text \<open>\<^verbatim>\<open>s.includes(sub)\<close>: \<open>sub\<close> occurs in \<open>s\<close> as a contiguous block.\<close>

primrec str_includes :: "string \<Rightarrow> string \<Rightarrow> bool" where
  "str_includes [] sub = (sub = [])"
| "str_includes (c # s) sub = (prefix sub (c # s) \<or> str_includes s sub)"

definition version_not_supported :: string where
  "version_not_supported =
     ''failed to get transaction: Transaction version (0) is not supported''"

text \<open>
  \<^verbatim>\<open>const delay = Math.min(500 * 2 ** (attempt - 1), 16000)\<close>. \<open>attempt\<close> is a
  JavaScript number holding an integer; \<^verbatim>\<open>2 ** k\<close> is a fraction for negative \<open>k\<close>,
  hence the rational result. A double computes these values exactly: a power of two times
  500 has a seven-bit mantissa, and where \<^verbatim>\<open>2 ** k\<close> overflows to \<^verbatim>\<open>Infinity\<close> the
  minimum is 16000 all the same.
\<close>

definition delay :: "int \<Rightarrow> rat" where
  "delay attempt = min (500 * power_int 2 (attempt - 1)) 16000"

function fetchTransactionWithBackoff ::
  "'pk externals \<Rightarrow> string \<Rightarrow> int \<Rightarrow> 'pk event list
     \<Rightarrow> (error + parsedTransaction option) \<times> 'pk event list" where
  "fetchTransactionWithBackoff c sg attempt h =
     (if attempt > 10 then (Inr None, h @ [Log_max_retry sg])
      else
        (case getParsedTransaction c h sg of
           Inr transaction \<Rightarrow> (Inr transaction, h @ [Call_getParsedTransaction sg])
         | Inl err \<Rightarrow>
             if str_includes (message err) version_not_supported then
               fetchTransactionWithBackoff c sg (attempt + 1)
                 (h @ [Call_getParsedTransaction sg, Log_version_retry (delay attempt),
                       Sleep (delay attempt)])
             else if str_includes (message err) ''429'' then
               fetchTransactionWithBackoff c sg (attempt + 1)
                 (h @ [Call_getParsedTransaction sg, Log_429_retry (delay attempt),
                       Sleep (delay attempt)])
             else (Inl err, h @ [Call_getParsedTransaction sg])))"
  by pat_completeness auto
termination
  by (relation "measure (\<lambda>(c, sg, attempt, h). nat (11 - attempt))") auto

declare fetchTransactionWithBackoff.simps [simp del]

text \<open>What a trace holds: the signatures passed to \<^verbatim>\<open>getParsedTransaction\<close> and the
  delays slept, each in the order of the trace.\<close>

fun fetched :: "'pk event list \<Rightarrow> string list" where
  "fetched [] = []"
| "fetched (Call_getParsedTransaction sg # evs) = sg # fetched evs"
| "fetched (ev # evs) = fetched evs"

fun sleeps :: "'pk event list \<Rightarrow> rat list" where
  "sleeps [] = []"
| "sleeps (Sleep d # evs) = d # sleeps evs"
| "sleeps (ev # evs) = sleeps evs"

section \<open>Simplifying a fetched transaction\<close>

text \<open>
  The record pushed by \<^verbatim>\<open>part_000\<close>. Isabelle wants field names distinct across
  records: the source's \<^verbatim>\<open>fee\<close> and \<^verbatim>\<open>type\<close> are \<open>out_fee\<close> and \<open>out_type\<close>
  here, and the fields of the nested \<^verbatim>\<open>token\<close> object carry the prefix \<open>token_\<close>.
  \<open>token_uuid\<close> is the mint, or \<open>None\<close> for the empty object \<^verbatim>\<open>{}\<close>.
\<close>

record token =
  token_uuid :: "string option"
  token_network :: string
  contract_address :: "string option"
  token_name :: string
  token_symbol :: string
  token_decimals :: nat
  display_decimals :: nat

record simplifiedTransaction =
  uuid :: "string option"
  network :: string
  out_fee :: nat
  compute_units_consumed :: nat
  timestamp :: "string option"
  out_type :: string
  wallet_address :: string
  transaction_hash :: string
  token :: token

text \<open>
  Lines 99 to 126 of \<^verbatim>\<open>part_000\<close>, the body of \<^verbatim>\<open>if (transaction)\<close> up to the push.
  Reading a property of \<^verbatim>\<open>null\<close> throws a \<^verbatim>\<open>TypeError\<close> (worded as Node.js does
  for \<^verbatim>\<open>null\<close>): \<^verbatim>\<open>meta.preTokenBalances[0]\<close> and \<^verbatim>\<open>meta.postTokenBalances[0]\<close>
  when \<^verbatim>\<open>meta\<close> or the balance list is absent.
  \<^verbatim>\<open>a || b\<close> is \<open>b\<close> when \<open>a\<close> is absent, zero or the empty string; likewise
  \<^verbatim>\<open>transaction.blockTime ? ... : null\<close> takes the \<^verbatim>\<open>null\<close> branch for an absent block
  time and for the block time 0.
\<close>

definition simplify_transaction ::
  "'pk externals \<Rightarrow> string \<Rightarrow> signatureInfo \<Rightarrow> parsedTransaction
     \<Rightarrow> error + simplifiedTransaction" where
  "simplify_transaction c walletAddress signatureInfo transaction =
     (case meta transaction of
        None \<Rightarrow> Inl (TypeError ''Cannot read properties of null (reading 'preTokenBalances')'')
      | Some m \<Rightarrow>
     (case preTokenBalances m of
        None \<Rightarrow> Inl (TypeError ''Cannot read properties of null (reading '0')'')
      | Some pre \<Rightarrow>
     (case postTokenBalances m of
        None \<Rightarrow> Inl (TypeError ''Cannot read properties of null (reading '0')'')
      | Some post \<Rightarrow>
     (case (case blockTime transaction of
              None \<Rightarrow> Inr None
            | Some T \<Rightarrow>
                if T = 0 then Inr None
                else (case toISOString c (T * 1000) of
                        Inl err \<Rightarrow> Inl err
                      | Inr rendered \<Rightarrow> Inr (Some rendered))) of
        Inl err \<Rightarrow> Inl err
      | Inr ts \<Rightarrow>
          Inr \<lparr> uuid = transactionHash m,
                network = ''Solana'',
                out_fee = (if fee m = 0 then 0 else fee m),
                compute_units_consumed =
                  (case computeUnitsConsumed m of
                     None \<Rightarrow> 0
                   | Some u \<Rightarrow> if u = 0 then 0 else u),
                timestamp = ts,
                out_type =
                  (case instructions transaction of
                     [] \<Rightarrow> ''unknown''
                   | i # _ \<Rightarrow>
                       (case parsed_type i of
                          None \<Rightarrow> ''unknown''
                        | Some ty \<Rightarrow> if ty = [] then ''unknown'' else ty)),
                wallet_address = walletAddress,
                transaction_hash = signature signatureInfo,
                token =
                  \<lparr> token_uuid =
                      (case pre of
                         [] \<Rightarrow> None
                       | b # _ \<Rightarrow> if mint b = [] then None else Some (mint b)),
                    token_network = ''Solana'',
                    contract_address =
                      (case pre of
                         [] \<Rightarrow> None
                       | b # _ \<Rightarrow> if mint b = [] then None else Some (mint b)),
                    token_name = ''solana'',
                    token_symbol = ''sol'',
                    token_decimals =
                      (case pre of
                         [] \<Rightarrow> 0
                       | b # _ \<Rightarrow>
                           (case uiTokenAmount b of
                              None \<Rightarrow> 0
                            | Some a \<Rightarrow> if decimals a = 0 then 0 else decimals a)),
                    display_decimals = 2 \<rparr> \<rparr>))))"

text \<open>The record pushed by \<^verbatim>\<open>index.js\<close> (lines 85 to 89); building it reads no
  property of an absent value, so it cannot throw.\<close>

record simplifiedTransaction_index =
  signature_index :: "string option"
  slot_index :: nat
  meta_index :: "transactionMeta option"

definition simplify_transaction_index ::
  "signatureInfo \<Rightarrow> parsedTransaction \<Rightarrow> error + simplifiedTransaction_index" where
  "simplify_transaction_index signatureInfo transaction =
     Inr \<lparr> signature_index =
             (case signatures transaction of [] \<Rightarrow> None | s # _ \<Rightarrow> Some s),
           slot_index = slot transaction,
           meta_index = meta transaction \<rparr>"

section \<open>getTransactions\<close>

text \<open>
  The \<^verbatim>\<open>for ... of\<close> loop over the listed signatures, the same text in both files but
  for the simplification, which is the parameter \<open>nz\<close>. The \<^verbatim>\<open>try\<close> block spans the whole
  loop body, so whatever \<^verbatim>\<open>fetchTransactionWithBackoff\<close> or the simplification throws
  reaches the \<^verbatim>\<open>catch\<close>, which writes one \<^verbatim>\<open>console.error\<close> line. \<open>transactions\<close>
  is the array built so far.
\<close>

fun getTransactions_loop ::
  "(signatureInfo \<Rightarrow> parsedTransaction \<Rightarrow> error + 'r) \<Rightarrow> 'pk externals
     \<Rightarrow> signatureInfo list \<Rightarrow> 'r list \<Rightarrow> 'pk event list \<Rightarrow> 'r list \<times> 'pk event list" where
  "getTransactions_loop nz c [] transactions h = (transactions, h)"
| "getTransactions_loop nz c (signatureInfo # rest) transactions h =
     (case fetchTransactionWithBackoff c (signature signatureInfo) 1 h of
        (Inl err, h') \<Rightarrow>
          getTransactions_loop nz c rest transactions
            (h' @ [Error_failed_transaction (signature signatureInfo) err])
      | (Inr None, h') \<Rightarrow> getTransactions_loop nz c rest transactions h'
      | (Inr (Some transaction), h') \<Rightarrow>
          (case nz signatureInfo transaction of
             Inl err \<Rightarrow>
               getTransactions_loop nz c rest transactions
                 (h' @ [Error_failed_transaction (signature signatureInfo) err])
           | Inr simplified \<Rightarrow>
               if length (transactions @ [simplified]) \<ge> 100
               then (transactions @ [simplified], h')
               else getTransactions_loop nz c rest (transactions @ [simplified]) h'))"

definition isValidSolanaPublicKey :: "'pk externals \<Rightarrow> string \<Rightarrow> bool" where
  "isValidSolanaPublicKey c address =
     (case PublicKey_new c address of Inl e \<Rightarrow> False | Inr pk \<Rightarrow> True)"

text \<open>\<^verbatim>\<open>getTransactions\<close> of \<^verbatim>\<open>part_000\<close>.\<close>

definition getTransactions ::
  "'pk externals \<Rightarrow> string \<Rightarrow> 'pk event list
     \<Rightarrow> (error + simplifiedTransaction list) \<times> 'pk event list" where
  "getTransactions c walletAddress h =
     (if \<not> isValidSolanaPublicKey c walletAddress
      then (Inl (Error ''Invalid wallet address''), h)
      else
        (case PublicKey_new c walletAddress of
           Inl err \<Rightarrow> (Inl err, h)
         | Inr publicKey \<Rightarrow>
             (case getSignaturesForAddress c h publicKey of
                Inl err \<Rightarrow>
                  (Inl (Error ''Failed to fetch signatures''),
                   h @ [Call_getSignaturesForAddress publicKey, Error_failed_signatures err])
              | Inr sigs \<Rightarrow>
                  (case getTransactions_loop (simplify_transaction c walletAddress) c sigs []
                          (h @ [Call_getSignaturesForAddress publicKey]) of
                     (transactions, h') \<Rightarrow> (Inr transactions, h')))))"

text \<open>\<^verbatim>\<open>getTransactions\<close> of \<^verbatim>\<open>index.js\<close>: no check of its own, the constructor
  throws.\<close>

definition getTransactions_index ::
  "'pk externals \<Rightarrow> string \<Rightarrow> 'pk event list
     \<Rightarrow> (error + simplifiedTransaction_index list) \<times> 'pk event list" where
  "getTransactions_index c walletAddress h =
     (case PublicKey_new c walletAddress of
        Inl err \<Rightarrow> (Inl err, h)
      | Inr publicKey \<Rightarrow>
          (case getSignaturesForAddress c h publicKey of
             Inl err \<Rightarrow>
               (Inl (Error ''Failed to fetch signatures''),
                h @ [Call_getSignaturesForAddress publicKey, Error_failed_signatures err])
           | Inr sigs \<Rightarrow>
               (case getTransactions_loop simplify_transaction_index c sigs []
                       (h @ [Call_getSignaturesForAddress publicKey]) of
                  (transactions, h') \<Rightarrow> (Inr transactions, h'))))"

section \<open>The specification's reading of the output order\<close>

text \<open>
  The specification's words for the result: the records of the signatures that were
  fetched and simplified, in listing order. \<open>fetched_records\<close> follows these words and
  knows no cap: it visits every listed signature in order and keeps the record of each
  one that yields one.
\<close>

fun fetched_records ::
  "(signatureInfo \<Rightarrow> parsedTransaction \<Rightarrow> error + 'r) \<Rightarrow> 'pk externals
     \<Rightarrow> signatureInfo list \<Rightarrow> 'pk event list \<Rightarrow> 'r list" where
  "fetched_records nz c [] h = []"
| "fetched_records nz c (signatureInfo # rest) h =
     (case fetchTransactionWithBackoff c (signature signatureInfo) 1 h of
        (Inl err, h') \<Rightarrow>
          fetched_records nz c rest
            (h' @ [Error_failed_transaction (signature signatureInfo) err])
      | (Inr None, h') \<Rightarrow> fetched_records nz c rest h'
      | (Inr (Some transaction), h') \<Rightarrow>
          (case nz signatureInfo transaction of
             Inl err \<Rightarrow>
               fetched_records nz c rest
                 (h' @ [Error_failed_transaction (signature signatureInfo) err])
           | Inr simplified \<Rightarrow> simplified # fetched_records nz c rest h'))"

text \<open>
  When the node answers a signature the same way whatever happened before, the fate of a
  listed signature does not depend on its place in the listing: \<open>record_of\<close> is its
  record, if it yields one.
\<close>

definition record_of ::
  "(signatureInfo \<Rightarrow> parsedTransaction \<Rightarrow> error + 'r) \<Rightarrow> 'pk externals
     \<Rightarrow> signatureInfo \<Rightarrow> 'r option" where
  "record_of nz c signatureInfo =
     (case fst (fetchTransactionWithBackoff c (signature signatureInfo) 1 []) of
        Inl err \<Rightarrow> None
      | Inr None \<Rightarrow> None
      | Inr (Some transaction) \<Rightarrow>
          (case nz signatureInfo transaction of
             Inl err \<Rightarrow> None
           | Inr simplified \<Rightarrow> Some simplified))"

section \<open>A fake client\<close>

text \<open>
  The specification asks for a client that a test can replace by a fake one. This is such
  a fake: the two RPC operations are given as functions, every non-empty address is
  accepted, and the date is rendered as ECMAScript prescribes for
  \<^verbatim>\<open>Date.prototype.toISOString\<close>.
\<close>

definition digits :: "nat list \<Rightarrow> nat \<Rightarrow> string" where
  "digits places n = map (\<lambda>p. ''0123456789'' ! (n div p mod 10)) places"

text \<open>The civil date of a day number, counted from 1 March of year 0 in eras of 400
  years (146097 days): \<open>doe\<close> is the day of the era, months are counted from March.\<close>

definition year_of_era :: "int \<Rightarrow> int" where
  "year_of_era doe = (doe - doe div 1460 + doe div 36524 - doe div 146096) div 365"

definition day_of_year :: "int \<Rightarrow> int" where
  "day_of_year doe =
     doe - (365 * year_of_era doe + year_of_era doe div 4 - year_of_era doe div 100)"

definition month_from_march :: "int \<Rightarrow> int" where
  "month_from_march doe = (5 * day_of_year doe + 2) div 153"

definition day_of_month :: "int \<Rightarrow> int" where
  "day_of_month doe = day_of_year doe - (153 * month_from_march doe + 2) div 5 + 1"

definition month_of_year :: "int \<Rightarrow> int" where
  "month_of_year doe =
     (if month_from_march doe < 10 then month_from_march doe + 3
      else month_from_march doe - 9)"

definition year_of_day :: "int \<Rightarrow> int" where
  "year_of_day z =
     year_of_era (z mod 146097) + (z div 146097) * 400
       + (if month_of_year (z mod 146097) \<le> 2 then 1 else 0)"

definition render_year :: "int \<Rightarrow> string" where
  "render_year y =
     (if 0 \<le> y \<and> y \<le> 9999 then digits [1000, 100, 10, 1] (nat y)
      else (if y < 0 then ''-'' else ''+'')
           @ digits [100000, 10000, 1000, 100, 10, 1] (nat \<bar>y\<bar>))"

definition render_time :: "nat \<Rightarrow> string" where
  "render_time t =
     digits [10, 1] (t div 3600000) @ '':'' @ digits [10, 1] (t div 60000 mod 60)
       @ '':'' @ digits [10, 1] (t div 1000 mod 60) @ ''.'' @ digits [100, 10, 1] (t mod 1000)"

definition Date_toISOString :: "int \<Rightarrow> error + string" where
  "Date_toISOString ms =
     (if \<bar>ms\<bar> > 8640000000000000 then Inl (RangeError ''Invalid time value'')
      else Inr (render_year (year_of_day (ms div 86400000 + 719468))
                @ ''-'' @ digits [10, 1]
                            (nat (month_of_year ((ms div 86400000 + 719468) mod 146097)))
                @ ''-'' @ digits [10, 1]
                            (nat (day_of_month ((ms div 86400000 + 719468) mod 146097)))
                @ ''T'' @ render_time (nat (ms mod 86400000)) @ ''Z''))"

definition fake_client ::
  "(string event list \<Rightarrow> string \<Rightarrow> error + signatureInfo list)
     \<Rightarrow> (string event list \<Rightarrow> string \<Rightarrow> error + parsedTransaction option)
     \<Rightarrow> string externals" where
  "fake_client listing details =
     \<lparr> PublicKey_new =
         (\<lambda>a. if a = [] then Inl (Error ''Invalid public key input'') else Inr a),
       getSignaturesForAddress = listing,
       getParsedTransaction = details,
       toISOString = Date_toISOString \<rparr>"

definition rejected :: "string \<Rightarrow> 'h \<Rightarrow> string \<Rightarrow> error + 'a" where
  "rejected msg h sg = Inl (Error msg)"

definition fake_transaction :: "int option \<Rightarrow> parsedTransaction" where
  "fake_transaction bt =
     \<lparr> slot = 7, signatures = [''5h6x''],
       instructions = [\<lparr> parsed_type = Some ''transfer'' \<rparr>],
       meta = Some \<lparr> transactionHash = None, fee = 5000, computeUnitsConsumed = Some 150,
                     preTokenBalances = Some [], postTokenBalances = Some [] \<rparr>,
       blockTime = bt \<rparr>"

text \<open>A rate-limited node: it answers 429 until \<open>n\<close> detail requests have been made.\<close>

definition throttled ::
  "nat \<Rightarrow> string event list \<Rightarrow> string \<Rightarrow> error + parsedTransaction option" where
  "throttled n h sg =
     (if length (fetched h) < n then Inl (Error ''429 Too Many Requests'')
      else Inr (Some (fake_transaction None)))"

text \<open>A node that fails on the signature \<open>bad\<close>, serves \<open>bare\<close> without its
  \<^verbatim>\<open>meta\<close>, and serves every other signature in full.\<close>

definition unreliable ::
  "string event list \<Rightarrow> string \<Rightarrow> error + parsedTransaction option" where
  "unreliable h sg =
     (if sg = ''bad'' then Inl (Error ''Network request failed'')
      else if sg = ''bare'' then Inr (Some ((fake_transaction None)\<lparr>meta := None\<rparr>))
      else Inr (Some (fake_transaction None)))"

section \<open>One call of fetchTransactionWithBackoff\<close>

text \<open>The branches of the function, one equation each.\<close>

lemma fetch_exhausted:
  "10 < attempt \<Longrightarrow>
   fetchTransactionWithBackoff c sg attempt h = (Inr None, h @ [Log_max_retry sg])"
  by (simp add: fetchTransactionWithBackoff.simps)

lemma fetch_resolved:
  "attempt \<le> 10 \<Longrightarrow> getParsedTransaction c h sg = Inr transaction \<Longrightarrow>
   fetchTransactionWithBackoff c sg attempt h
     = (Inr transaction, h @ [Call_getParsedTransaction sg])"
  by (subst fetchTransactionWithBackoff.simps) simp

lemma fetch_version:
  "attempt \<le> 10 \<Longrightarrow> getParsedTransaction c h sg = Inl err \<Longrightarrow>
   str_includes (message err) version_not_supported \<Longrightarrow>
   fetchTransactionWithBackoff c sg attempt h
     = fetchTransactionWithBackoff c sg (attempt + 1)
         (h @ [Call_getParsedTransaction sg, Log_version_retry (delay attempt),
               Sleep (delay attempt)])"
  by (subst fetchTransactionWithBackoff.simps) simp

lemma fetch_429:
  "attempt \<le> 10 \<Longrightarrow> getParsedTransaction c h sg = Inl err \<Longrightarrow>
   \<not> str_includes (message err) version_not_supported \<Longrightarrow>
   str_includes (message err) ''429'' \<Longrightarrow>
   fetchTransactionWithBackoff c sg attempt h
     = fetchTransactionWithBackoff c sg (attempt + 1)
         (h @ [Call_getParsedTransaction sg, Log_429_retry (delay attempt),
               Sleep (delay attempt)])"
  by (subst fetchTransactionWithBackoff.simps) simp

lemma fetch_rethrown:
  "attempt \<le> 10 \<Longrightarrow> getParsedTransaction c h sg = Inl err \<Longrightarrow>
   \<not> str_includes (message err) version_not_supported \<Longrightarrow>
   \<not> str_includes (message err) ''429'' \<Longrightarrow>
   fetchTransactionWithBackoff c sg attempt h
     = (Inl err, h @ [Call_getParsedTransaction sg])"
  by (subst fetchTransactionWithBackoff.simps) simp

lemma fetch_extends_trace:
  "\<exists>evs. snd (fetchTransactionWithBackoff c sg attempt h) = h @ evs"
proof (induction c sg attempt h rule: fetchTransactionWithBackoff.induct)
  case (1 c sg attempt h)
  show ?case
  proof (cases "10 < attempt")
    case True
    then show ?thesis by (simp add: fetch_exhausted)
  next
    case False
    then have le: "attempt \<le> 10" by simp
    show ?thesis
    proof (cases "getParsedTransaction c h sg")
      case (Inr transaction)
      with le show ?thesis by (simp add: fetch_resolved)
    next
      case (Inl err)
      consider (v) "str_includes (message err) version_not_supported"
        | (r) "\<not> str_includes (message err) version_not_supported"
              "str_includes (message err) ''429''"
        | (o) "\<not> str_includes (message err) version_not_supported"
              "\<not> str_includes (message err) ''429''"
        by blast
      then show ?thesis
      proof cases
        case v
        from "1.IH"(1) [OF False Inl v] obtain evs where
          "snd (fetchTransactionWithBackoff c sg (attempt + 1)
             (h @ [Call_getParsedTransaction sg, Log_version_retry (delay attempt),
                   Sleep (delay attempt)]))
           = (h @ [Call_getParsedTransaction sg, Log_version_retry (delay attempt),
                   Sleep (delay attempt)]) @ evs" by blast
        then show ?thesis
          by (simp add: fetch_version [OF le Inl v])
      next
        case r
        from "1.IH"(2) [OF False Inl r] obtain evs where
          "snd (fetchTransactionWithBackoff c sg (attempt + 1)
             (h @ [Call_getParsedTransaction sg, Log_429_retry (delay attempt),
                   Sleep (delay attempt)]))
           = (h @ [Call_getParsedTransaction sg, Log_429_retry (delay attempt),
                   Sleep (delay attempt)]) @ evs" by blast
        then show ?thesis
          by (simp add: fetch_429 [OF le Inl r])
      next
        case o
        then show ?thesis by (simp add: fetch_rethrown [OF le Inl o])
      qed
    qed
  qed
qed


lemma str_includes_self: "str_includes s s"
  by (cases s) simp_all

section \<open>The backoff delay\<close>

lemma delay_values:
  "delay 1 = 500" "delay 2 = 1000" "delay 3 = 2000" "delay 4 = 4000" "delay 5 = 8000"
  "delay 6 = 16000" "delay 7 = 16000" "delay 8 = 16000" "delay 9 = 16000"
  "delay 10 = 16000"
  by (simp_all add: delay_def)

lemma delay_capped:
  assumes "6 \<le> n"
  shows "delay n = 16000"
proof -
  have "(2::rat) ^ 5 \<le> 2 ^ nat (n - 1)"
    using assms by (intro power_increasing) auto
  moreover have "power_int (2::rat) (n - 1) = 2 ^ nat (n - 1)"
    using assms by (simp add: power_int_def)
  ultimately show ?thesis
    by (simp add: delay_def min_def)
qed


text \<open>
  C8. For every attempt number \<open>n \<ge> 1\<close> the delay is \<open>min (500 * 2 ^ (n - 1)) 16000\<close>
  milliseconds, an integer: 500, 1000, 2000, 4000, 8000 for the attempts 1 to 5 and 16000
  from attempt 6 on.
\<close>

theorem delay_formula:
  assumes "1 \<le> n"
  shows "delay n = of_nat (min (500 * 2 ^ nat (n - 1)) 16000)
       \<and> delay n = (if 6 \<le> n then 16000 else [500, 1000, 2000, 4000, 8000] ! nat (n - 1))"
proof -
  have "power_int (2::rat) (n - 1) = 2 ^ nat (n - 1)"
    using assms by (simp add: power_int_def)
  then have exact: "delay n = of_nat (min (500 * 2 ^ nat (n - 1)) 16000)"
    by (simp add: delay_def of_nat_min)
  have table: "delay n = (if 6 \<le> n then 16000 else [500, 1000, 2000, 4000, 8000] ! nat (n - 1))"
  proof (cases "6 \<le> n")
    case True
    then show ?thesis by (simp add: delay_capped)
  next
    case False
    with assms consider "n = 1" | "n = 2" | "n = 3" | "n = 4" | "n = 5" by arith
    then show ?thesis
      by cases (simp_all add: delay_values)
  qed
  from exact table show ?thesis by blast
qed

theorem delay_formula_witness:
  "(1::int) \<le> 3 \<and> delay 3 = 2000 \<and> (1::int) \<le> 9 \<and> delay 9 = 16000"
  using delay_formula [of 3] delay_formula [of 9] by simp

section \<open>A signature that is never served\<close>

lemma version_exhaustion:
  assumes "\<forall>h. \<exists>err. getParsedTransaction c h sg = Inl err
                 \<and> str_includes (message err) version_not_supported"
  shows "fetchTransactionWithBackoff c sg 1 h =
     (Inr None,
      h @ [Call_getParsedTransaction sg, Log_version_retry 500, Sleep 500,
           Call_getParsedTransaction sg, Log_version_retry 1000, Sleep 1000,
           Call_getParsedTransaction sg, Log_version_retry 2000, Sleep 2000,
           Call_getParsedTransaction sg, Log_version_retry 4000, Sleep 4000,
           Call_getParsedTransaction sg, Log_version_retry 8000, Sleep 8000,
           Call_getParsedTransaction sg, Log_version_retry 16000, Sleep 16000,
           Call_getParsedTransaction sg, Log_version_retry 16000, Sleep 16000,
           Call_getParsedTransaction sg, Log_version_retry 16000, Sleep 16000,
           Call_getParsedTransaction sg, Log_version_retry 16000, Sleep 16000,
           Call_getParsedTransaction sg, Log_version_retry 16000, Sleep 16000,
           Log_max_retry sg])"
proof -
  have step: "fetchTransactionWithBackoff c sg n k
      = fetchTransactionWithBackoff c sg (n + 1)
          (k @ [Call_getParsedTransaction sg, Log_version_retry (delay n), Sleep (delay n)])"
    if "n \<le> 10" for n k
  proof -
    from assms obtain err where "getParsedTransaction c k sg = Inl err"
      "str_includes (message err) version_not_supported" by blast
    with that show ?thesis by (rule fetch_version)
  qed
  show ?thesis
    by (simp add: step delay_values fetch_exhausted)
qed

text \<open>
  C1, as the code has it. When every detail request for a signature fails with the
  version-not-supported message, \<^verbatim>\<open>fetchTransactionWithBackoff\<close> started at attempt 1
  makes exactly ten requests, attempts 1 to 10, and sleeps after each of them, for 500,
  1000, 2000, 4000, 8000 and then five times 16000 ms. The eleventh invocation makes no
  request: it logs that the retries are used up and returns \<^verbatim>\<open>null\<close>.
\<close>

theorem version_not_supported_exhausts:
  assumes "\<forall>h. \<exists>err. getParsedTransaction c h sg = Inl err
                 \<and> str_includes (message err) version_not_supported"
  shows "fetchTransactionWithBackoff c sg 1 h =
     (Inr None,
      h @ [Call_getParsedTransaction sg, Log_version_retry 500, Sleep 500,
           Call_getParsedTransaction sg, Log_version_retry 1000, Sleep 1000,
           Call_getParsedTransaction sg, Log_version_retry 2000, Sleep 2000,
           Call_getParsedTransaction sg, Log_version_retry 4000, Sleep 4000,
           Call_getParsedTransaction sg, Log_version_retry 8000, Sleep 8000,
           Call_getParsedTransaction sg, Log_version_retry 16000, Sleep 16000,
           Call_getParsedTransaction sg, Log_version_retry 16000, Sleep 16000,
           Call_getParsedTransaction sg, Log_version_retry 16000, Sleep 16000,
           Call_getParsedTransaction sg, Log_version_retry 16000, Sleep 16000,
           Call_getParsedTransaction sg, Log_version_retry 16000, Sleep 16000,
           Log_max_retry sg])
   \<and> fetched (drop (length h) (snd (fetchTransactionWithBackoff c sg 1 h)))
       = replicate 10 sg
   \<and> sleeps (drop (length h) (snd (fetchTransactionWithBackoff c sg 1 h)))
       = [500, 1000, 2000, 4000, 8000, 16000, 16000, 16000, 16000, 16000]"
  by (simp add: version_exhaustion [OF assms] eval_nat_numeral)

theorem version_not_supported_exhausts_witness:
  "fst (fetchTransactionWithBackoff
          (fake_client (rejected ''down'') (rejected version_not_supported)) ''5h6x'' 1 [])
     = Inr None
   \<and> fetched (snd (fetchTransactionWithBackoff
          (fake_client (rejected ''down'') (rejected version_not_supported)) ''5h6x'' 1 []))
     = replicate 10 ''5h6x''
   \<and> sleeps (snd (fetchTransactionWithBackoff
          (fake_client (rejected ''down'') (rejected version_not_supported)) ''5h6x'' 1 []))
     = [500, 1000, 2000, 4000, 8000, 16000, 16000, 16000, 16000, 16000]"
proof -
  have "\<forall>h. \<exists>err. getParsedTransaction
            (fake_client (rejected ''down'') (rejected version_not_supported)) h ''5h6x''
              = Inl err
          \<and> str_includes (message err) version_not_supported"
    by (simp add: fake_client_def rejected_def str_includes_self)
  from version_not_supported_exhausts [OF this, of "[]"] show ?thesis
    by (simp add: eval_nat_numeral)
qed

text \<open>C1 as stated asks for eleven requests; the node sees ten.\<close>

theorem eleven_attempts_counterexample:
  "length (fetched (snd (fetchTransactionWithBackoff
      (fake_client (rejected ''down'') (rejected version_not_supported)) ''5h6x'' 1 [])))
   \<noteq> 11"
proof -
  have "\<forall>h. \<exists>err. getParsedTransaction
            (fake_client (rejected ''down'') (rejected version_not_supported)) h ''5h6x''
              = Inl err
          \<and> str_includes (message err) version_not_supported"
    by (simp add: fake_client_def rejected_def str_includes_self)
  from version_exhaustion [OF this, of "[]"] show ?thesis
    by simp
qed

section \<open>Rate limiting\<close>

text \<open>
  C5. When the detail request of a signature is answered by a 429-classified error on
  attempts 1 and 2 and succeeds on attempt 3, \<^verbatim>\<open>fetchTransactionWithBackoff\<close> sleeps
  exactly twice, 500 ms and then 1000 ms, and returns what attempt 3 produced.
\<close>

theorem two_429_then_success:
  assumes "getParsedTransaction c h sg = Inl e1"
    and "\<not> str_includes (message e1) version_not_supported"
    and "str_includes (message e1) ''429''"
    and "getParsedTransaction c
           (h @ [Call_getParsedTransaction sg, Log_429_retry 500, Sleep 500]) sg = Inl e2"
    and "\<not> str_includes (message e2) version_not_supported"
    and "str_includes (message e2) ''429''"
    and "getParsedTransaction c
           (h @ [Call_getParsedTransaction sg, Log_429_retry 500, Sleep 500,
                 Call_getParsedTransaction sg, Log_429_retry 1000, Sleep 1000]) sg
         = Inr transaction"
  shows "fetchTransactionWithBackoff c sg 1 h =
     (Inr transaction,
      h @ [Call_getParsedTransaction sg, Log_429_retry 500, Sleep 500,
           Call_getParsedTransaction sg, Log_429_retry 1000, Sleep 1000,
           Call_getParsedTransaction sg])
   \<and> sleeps (drop (length h) (snd (fetchTransactionWithBackoff c sg 1 h))) = [500, 1000]"
proof -
  have "fetchTransactionWithBackoff c sg 1 h
      = fetchTransactionWithBackoff c sg 2
          (h @ [Call_getParsedTransaction sg, Log_429_retry 500, Sleep 500])"
    using fetch_429 [of 1 c h sg e1] assms(1-3) by (simp add: delay_values)
  also have "\<dots> = fetchTransactionWithBackoff c sg 3
          (h @ [Call_getParsedTransaction sg, Log_429_retry 500, Sleep 500,
                Call_getParsedTransaction sg, Log_429_retry 1000, Sleep 1000])"
    using fetch_429 [of 2 c _ sg e2] assms(4-6) by (simp add: delay_values)
  also have "\<dots> = (Inr transaction,
      h @ [Call_getParsedTransaction sg, Log_429_retry 500, Sleep 500,
           Call_getParsedTransaction sg, Log_429_retry 1000, Sleep 1000,
           Call_getParsedTransaction sg])"
    using fetch_resolved [of 3 c _ sg transaction] assms(7) by simp
  finally show ?thesis by simp
qed

theorem two_429_then_success_witness:
  "fetchTransactionWithBackoff (fake_client (rejected ''down'') (throttled 2)) ''5h6x'' 1 []
     = (Inr (Some (fake_transaction None)),
        [Call_getParsedTransaction ''5h6x'', Log_429_retry 500, Sleep 500,
         Call_getParsedTransaction ''5h6x'', Log_429_retry 1000, Sleep 1000,
         Call_getParsedTransaction ''5h6x''])
   \<and> sleeps (snd (fetchTransactionWithBackoff
                    (fake_client (rejected ''down'') (throttled 2)) ''5h6x'' 1 []))
     = [500, 1000]"
  using two_429_then_success [of "fake_client (rejected ''down'') (throttled 2)" "[]" "''5h6x''"
      "Error ''429 Too Many Requests''" "Error ''429 Too Many Requests''"
      "Some (fake_transaction None)"]
  by (simp add: fake_client_def throttled_def version_not_supported_def)

section \<open>One turn of the loop\<close>

lemma loop_caught:
  "fetchTransactionWithBackoff c (signature si) 1 h = (Inl err, h') \<Longrightarrow>
   getTransactions_loop nz c (si # rest) txs h
     = getTransactions_loop nz c rest txs
         (h' @ [Error_failed_transaction (signature si) err])"
  by simp

lemma loop_skipped:
  "fetchTransactionWithBackoff c (signature si) 1 h = (Inr None, h') \<Longrightarrow>
   getTransactions_loop nz c (si # rest) txs h = getTransactions_loop nz c rest txs h'"
  by simp

lemma loop_normalize_failed:
  "fetchTransactionWithBackoff c (signature si) 1 h = (Inr (Some t), h') \<Longrightarrow>
   nz si t = Inl err \<Longrightarrow>
   getTransactions_loop nz c (si # rest) txs h
     = getTransactions_loop nz c rest txs
         (h' @ [Error_failed_transaction (signature si) err])"
  by simp

lemma loop_pushed:
  "fetchTransactionWithBackoff c (signature si) 1 h = (Inr (Some t), h') \<Longrightarrow>
   nz si t = Inr r \<Longrightarrow>
   getTransactions_loop nz c (si # rest) txs h
     = (if 100 \<le> length (txs @ [r]) then (txs @ [r], h')
        else getTransactions_loop nz c rest (txs @ [r]) h')"
  by simp

lemma loop_take:
  "length txs < 100 \<Longrightarrow>
   fst (getTransactions_loop nz c sigs txs h) = take 100 (txs @ fetched_records nz c sigs h)"
proof (induction sigs arbitrary: txs h)
  case Nil
  then show ?case by simp
next
  case (Cons si rest)
  obtain res h' where f: "fetchTransactionWithBackoff c (signature si) 1 h = (res, h')"
    by (cases "fetchTransactionWithBackoff c (signature si) 1 h")
  show ?case
  proof (cases res)
    case (Inl err)
    with f Cons show ?thesis by simp
  next
    case (Inr got)
    show ?thesis
    proof (cases got)
      case None
      with f Inr Cons show ?thesis by simp
    next
      case (Some t)
      show ?thesis
      proof (cases "nz si t")
        case (Inl err)
        with f Inr Some Cons show ?thesis by simp
      next
        case r: (Inr r)
        show ?thesis
        proof (cases "100 \<le> length (txs @ [r])")
          case True
          with Cons.prems have "length txs = 99" by simp
          with f Inr Some r show ?thesis by simp
        next
          case False
          then have "length (txs @ [r]) < 100" by simp
          from Cons.IH [OF this] f Inr Some r False show ?thesis by simp
        qed
      qed
    qed
  qed
qed

lemma loop_stops:
  "length txs < 100 \<Longrightarrow>
   length (fst (getTransactions_loop nz c pre txs h)) = 100 \<Longrightarrow>
   getTransactions_loop nz c (pre @ rest) txs h = getTransactions_loop nz c pre txs h"
proof (induction pre arbitrary: txs h)
  case Nil
  then show ?case by simp
next
  case (Cons si pre)
  obtain res h' where f: "fetchTransactionWithBackoff c (signature si) 1 h = (res, h')"
    by (cases "fetchTransactionWithBackoff c (signature si) 1 h")
  show ?case
  proof (cases res)
    case (Inl err)
    with f Cons show ?thesis by simp
  next
    case (Inr got)
    show ?thesis
    proof (cases got)
      case None
      with f Inr Cons show ?thesis by simp
    next
      case (Some t)
      show ?thesis
      proof (cases "nz si t")
        case (Inl err)
        with f Inr Some Cons show ?thesis by simp
      next
        case r: (Inr r)
        show ?thesis
        proof (cases "100 \<le> length (txs @ [r])")
          case True
          with f Inr Some r show ?thesis by simp
        next
          case False
          then have "length (txs @ [r]) < 100" by simp
          from Cons.IH [OF this] Cons.prems(2) f Inr Some r False show ?thesis by simp
        qed
      qed
    qed
  qed
qed

lemma records_all_succeed:
  assumes "\<And>h sg. getParsedTransaction c h sg = Inr (Some t)"
    and "\<And>si. nz si t = Inr (r si)"
  shows "fetched_records nz c sigs h = map r sigs"
proof (induction sigs arbitrary: h)
  case Nil
  show ?case by simp
next
  case (Cons si rest)
  have "fetchTransactionWithBackoff c (signature si) 1 h
          = (Inr (Some t), h @ [Call_getParsedTransaction (signature si)])"
    by (subst fetchTransactionWithBackoff.simps) (simp add: assms)
  with Cons assms(2) show ?case by simp
qed

lemma fetch_stateless:
  assumes "\<And>h h'. getParsedTransaction c h sg = getParsedTransaction c h' sg"
  shows "fst (fetchTransactionWithBackoff c sg attempt h)
       = fst (fetchTransactionWithBackoff c sg attempt h')"
  using assms
proof (induction c sg attempt h arbitrary: h' rule: fetchTransactionWithBackoff.induct)
  case (1 c sg attempt h)
  show ?case
  proof (cases "10 < attempt")
    case True
    then show ?thesis by (simp add: fetch_exhausted)
  next
    case False
    then have le: "attempt \<le> 10" by simp
    have same: "getParsedTransaction c h' sg = getParsedTransaction c h sg"
      by (rule "1.prems")
    show ?thesis
    proof (cases "getParsedTransaction c h sg")
      case (Inr transaction)
      with le same show ?thesis by (simp add: fetch_resolved)
    next
      case (Inl err)
      with same have Inl': "getParsedTransaction c h' sg = Inl err" by simp
      consider (v) "str_includes (message err) version_not_supported"
        | (r) "\<not> str_includes (message err) version_not_supported"
              "str_includes (message err) ''429''"
        | (o) "\<not> str_includes (message err) version_not_supported"
              "\<not> str_includes (message err) ''429''"
        by blast
      then show ?thesis
      proof cases
        case v
        from "1.IH"(1) [OF False Inl v "1.prems"] show ?thesis
          by (simp add: fetch_version [OF le Inl v] fetch_version [OF le Inl' v])
      next
        case r
        from "1.IH"(2) [OF False Inl r "1.prems"] show ?thesis
          by (simp add: fetch_429 [OF le Inl r] fetch_429 [OF le Inl' r])
      next
        case o
        show ?thesis
          by (simp add: fetch_rethrown [OF le Inl o] fetch_rethrown [OF le Inl' o])
      qed
    qed
  qed
qed

lemma fetched_records_stateless:
  assumes "\<And>sg h h'. getParsedTransaction c h sg = getParsedTransaction c h' sg"
  shows "fetched_records nz c sigs h = List.map_filter (record_of nz c) sigs"
proof (induction sigs arbitrary: h)
  case Nil
  show ?case by (simp add: List.map_filter_simps)
next
  case (Cons si rest)
  obtain res h' where f: "fetchTransactionWithBackoff c (signature si) 1 h = (res, h')"
    by (cases "fetchTransactionWithBackoff c (signature si) 1 h")
  have "fst (fetchTransactionWithBackoff c (signature si) 1 []) 
      = fst (fetchTransactionWithBackoff c (signature si) 1 h)"
    by (rule fetch_stateless) (rule assms)
  with f have res: "fst (fetchTransactionWithBackoff c (signature si) 1 []) = res" by simp
  show ?case
  proof (cases res)
    case (Inl err)
    with f res Cons show ?thesis by (simp add: List.map_filter_simps record_of_def)
  next
    case (Inr got)
    show ?thesis
    proof (cases got)
      case None
      with f res Inr Cons show ?thesis by (simp add: List.map_filter_simps record_of_def)
    next
      case (Some t)
      with f res Inr Cons show ?thesis
        by (cases "nz si t") (simp_all add: List.map_filter_simps record_of_def)
    qed
  qed
qed

lemma fetched_append: "fetched (xs @ ys) = fetched xs @ fetched ys"
  by (induction xs rule: fetched.induct) simp_all

lemma fetch_first_call:
  "\<exists>evs. snd (fetchTransactionWithBackoff c sg 1 h) = h @ Call_getParsedTransaction sg # evs"
proof (cases "getParsedTransaction c h sg")
  case (Inr transaction)
  then show ?thesis by (simp add: fetch_resolved)
next
  case (Inl err)
  consider (v) "str_includes (message err) version_not_supported"
    | (r) "\<not> str_includes (message err) version_not_supported"
          "str_includes (message err) ''429''"
    | (o) "\<not> str_includes (message err) version_not_supported"
          "\<not> str_includes (message err) ''429''"
    by blast
  then show ?thesis
  proof cases
    case v
    obtain evs where "snd (fetchTransactionWithBackoff c sg (1 + 1)
          (h @ [Call_getParsedTransaction sg, Log_version_retry (delay 1), Sleep (delay 1)]))
        = (h @ [Call_getParsedTransaction sg, Log_version_retry (delay 1), Sleep (delay 1)]) @ evs"
      using fetch_extends_trace by blast
    then show ?thesis
      using fetch_version [of 1 c h sg err] Inl v by simp
  next
    case r
    obtain evs where "snd (fetchTransactionWithBackoff c sg (1 + 1)
          (h @ [Call_getParsedTransaction sg, Log_429_retry (delay 1), Sleep (delay 1)]))
        = (h @ [Call_getParsedTransaction sg, Log_429_retry (delay 1), Sleep (delay 1)]) @ evs"
      using fetch_extends_trace by blast
    then show ?thesis
      using fetch_429 [of 1 c h sg err] Inl r by simp
  next
    case o
    then show ?thesis
      using fetch_rethrown [of 1 c h sg err] Inl by simp
  qed
qed

lemma loop_visits_all:
  "length (fst (getTransactions_loop nz c sigs txs h)) < 100 \<Longrightarrow>
   \<exists>evs. snd (getTransactions_loop nz c sigs txs h) = h @ evs
         \<and> subseq (map signature sigs) (fetched evs)"
proof (induction sigs arbitrary: txs h)
  case Nil
  then show ?case by simp
next
  case (Cons si rest)
  obtain res h' where f: "fetchTransactionWithBackoff c (signature si) 1 h = (res, h')"
    by (cases "fetchTransactionWithBackoff c (signature si) 1 h")
  obtain e1 where h': "h' = h @ Call_getParsedTransaction (signature si) # e1"
    using fetch_first_call [of c "signature si" h] f by auto
  have continue: ?case
    if eq: "getTransactions_loop nz c (si # rest) txs h = getTransactions_loop nz c rest txs' (h' @ e2)"
    for txs' e2
  proof -
    from Cons.prems eq have "length (fst (getTransactions_loop nz c rest txs' (h' @ e2))) < 100"
      by simp
    from Cons.IH [OF this] obtain evs where
      evs: "snd (getTransactions_loop nz c rest txs' (h' @ e2)) = (h' @ e2) @ evs"
        "subseq (map signature rest) (fetched evs)" by blast
    have "subseq (signature si # map signature rest)
            (signature si # (fetched e1 @ fetched e2) @ fetched evs)"
      using evs(2) list_emb_append2 [of "(=)" "map signature rest" "fetched evs" "fetched e1 @ fetched e2"]
      by simp
    with evs(1) eq h' show ?thesis
      by (intro exI [of _ "Call_getParsedTransaction (signature si) # e1 @ e2 @ evs"])
         (simp add: fetched_append)
  qed
  show ?case
  proof (cases res)
    case (Inl err)
    with f show ?thesis by (intro continue) simp
  next
    case (Inr got)
    show ?thesis
    proof (cases got)
      case None
      with f Inr show ?thesis by (intro continue [of _ "[]"]) simp
    next
      case (Some t)
      show ?thesis
      proof (cases "nz si t")
        case (Inl err)
        with f Inr Some show ?thesis by (intro continue) simp
      next
        case r: (Inr r)
        show ?thesis
        proof (cases "100 \<le> length (txs @ [r])")
          case True
          with f Inr Some r Cons.prems show ?thesis by simp
        next
          case False
          with f Inr Some r show ?thesis by (intro continue [of _ "[]"]) simp
        qed
      qed
    qed
  qed
qed

section \<open>Which errors are retried\<close>

text \<open>
  C2. An error of the detail request is retried, by a sleep and a recursive call with
  \<open>attempt + 1\<close>, exactly when its message contains the version-not-supported text or
  the text 429. Any other error leaves the function at once: one request, no sleep, the
  error itself as the outcome. The loop that started the fetch for this signature then
  writes one \<^verbatim>\<open>console.error\<close> line and goes on with the remaining signatures.
\<close>

theorem retry_iff_transient:
  assumes "attempt \<le> 10" and "getParsedTransaction c h sg = Inl err"
  shows "if str_includes (message err) version_not_supported \<or> str_includes (message err) ''429''
         then fetchTransactionWithBackoff c sg attempt h
                = fetchTransactionWithBackoff c sg (attempt + 1)
                    (h @ [Call_getParsedTransaction sg,
                          if str_includes (message err) version_not_supported
                          then Log_version_retry (delay attempt)
                          else Log_429_retry (delay attempt),
                          Sleep (delay attempt)])
              \<and> sleeps (drop (length h) (snd (fetchTransactionWithBackoff c sg attempt h))) \<noteq> []
         else fetchTransactionWithBackoff c sg attempt h
                = (Inl err, h @ [Call_getParsedTransaction sg])
              \<and> sleeps (drop (length h) (snd (fetchTransactionWithBackoff c sg attempt h))) = []
              \<and> fetched (drop (length h) (snd (fetchTransactionWithBackoff c sg attempt h))) = [sg]
              \<and> (fetchTransactionWithBackoff c (signature si) 1 h0
                    = fetchTransactionWithBackoff c sg attempt h
                  \<longrightarrow> getTransactions_loop nz c (si # rest) txs h0
                    = getTransactions_loop nz c rest txs
                        (h @ [Call_getParsedTransaction sg,
                              Error_failed_transaction (signature si) err]))"
proof (cases "str_includes (message err) version_not_supported \<or> str_includes (message err) ''429''")
  case True
  define lg :: "'a event" where "lg = (if str_includes (message err) version_not_supported
                          then Log_version_retry (delay attempt)
                          else Log_429_retry (delay attempt))"
  have step: "fetchTransactionWithBackoff c sg attempt h
                = fetchTransactionWithBackoff c sg (attempt + 1)
                    (h @ [Call_getParsedTransaction sg, lg, Sleep (delay attempt)])"
  proof (cases "str_includes (message err) version_not_supported")
    case True
    then show ?thesis unfolding lg_def using fetch_version [OF assms True] by simp
  next
    case False
    with True have "str_includes (message err) ''429''" by blast
    from fetch_429 [OF assms False this] False show ?thesis unfolding lg_def by simp
  qed
  obtain evs where "snd (fetchTransactionWithBackoff c sg (attempt + 1)
                    (h @ [Call_getParsedTransaction sg, lg, Sleep (delay attempt)]))
      = (h @ [Call_getParsedTransaction sg, lg, Sleep (delay attempt)]) @ evs"
    using fetch_extends_trace by blast
  with step have "drop (length h) (snd (fetchTransactionWithBackoff c sg attempt h))
      = [Call_getParsedTransaction sg, lg, Sleep (delay attempt)] @ evs"
    by simp
  then have "sleeps (drop (length h) (snd (fetchTransactionWithBackoff c sg attempt h))) \<noteq> []"
    by (cases lg) (simp_all add: lg_def split: if_splits)
  with step True show ?thesis unfolding lg_def by simp
next
  case False
  then have n: "\<not> str_includes (message err) version_not_supported"
    "\<not> str_includes (message err) ''429''" by blast+
  from fetch_rethrown [OF assms n] False show ?thesis by simp
qed

theorem retry_iff_transient_witness:
  "fetchTransactionWithBackoff
      (fake_client (rejected ''down'') (rejected ''Network request failed'')) ''5h6x'' 1 []
     = (Inl (Error ''Network request failed''), [Call_getParsedTransaction ''5h6x''])
   \<and> getTransactions_loop simplify_transaction_index
        (fake_client (rejected ''down'') (rejected ''Network request failed''))
        [\<lparr>signature = ''5h6x''\<rparr>] [] []
     = ([], [Call_getParsedTransaction ''5h6x'',
             Error_failed_transaction ''5h6x'' (Error ''Network request failed'')])
   \<and> fetchTransactionWithBackoff (fake_client (rejected ''down'') (throttled 1)) ''5h6x'' 1 []
     = fetchTransactionWithBackoff (fake_client (rejected ''down'') (throttled 1)) ''5h6x'' 2
         [Call_getParsedTransaction ''5h6x'', Log_429_retry 500, Sleep 500]
   \<and> sleeps (snd (fetchTransactionWithBackoff
                    (fake_client (rejected ''down'') (throttled 1)) ''5h6x'' 1 [])) \<noteq> []"
proof -
  let ?c = "fake_client (rejected ''down'') (rejected ''Network request failed'')"
  let ?t = "fake_client (rejected ''down'') (throttled 1)"
  have a: "getParsedTransaction ?c [] ''5h6x'' = Inl (Error ''Network request failed'')"
    by (simp add: fake_client_def rejected_def)
  have b: "getParsedTransaction ?t [] ''5h6x'' = Inl (Error ''429 Too Many Requests'')"
    by (simp add: fake_client_def throttled_def)
  have one: "(1::int) \<le> 10" by simp
  have other: "fetchTransactionWithBackoff ?c ''5h6x'' 1 []
      = (Inl (Error ''Network request failed''), [Call_getParsedTransaction ''5h6x''])
    \<and> getTransactions_loop simplify_transaction_index ?c [\<lparr>signature = ''5h6x''\<rparr>] [] []
      = ([], [Call_getParsedTransaction ''5h6x'',
              Error_failed_transaction ''5h6x'' (Error ''Network request failed'')])"
    using retry_iff_transient [OF one a, of "\<lparr>signature = ''5h6x''\<rparr>" "[]"
        simplify_transaction_index "[]" "[]"]
    by (simp add: version_not_supported_def)
  have limited: "fetchTransactionWithBackoff ?t ''5h6x'' 1 []
      = fetchTransactionWithBackoff ?t ''5h6x'' 2
          [Call_getParsedTransaction ''5h6x'', Log_429_retry 500, Sleep 500]
    \<and> sleeps (snd (fetchTransactionWithBackoff ?t ''5h6x'' 1 [])) \<noteq> []"
  proof -
    have cls: "str_includes (message (Error ''429 Too Many Requests'')) ''429''"
      by simp
    have nv: "\<not> str_includes (message (Error ''429 Too Many Requests'')) version_not_supported"
      by (simp add: version_not_supported_def)
    from retry_iff_transient [OF one b] show ?thesis
      by (simp only: cls nv simp_thms if_True if_False delay_values one_add_one append_Nil
            list.size drop_0)
  qed
  from other limited show ?thesis by blast
qed

section \<open>The simplified record\<close>

lemma simplified_Inr:
  assumes "simplify_transaction c w si t = Inr r"
  obtains m pre post ts where "meta t = Some m" "preTokenBalances m = Some pre"
    "postTokenBalances m = Some post"
    "(case blockTime t of
        None \<Rightarrow> Inr None
      | Some T \<Rightarrow>
          if T = 0 then Inr None
          else (case toISOString c (T * 1000) of
                  Inl err \<Rightarrow> Inl err
                | Inr rendered \<Rightarrow> Inr (Some rendered))) = Inr ts"
    "timestamp r = ts" "transaction_hash r = signature si" "wallet_address r = w"
    "network r = ''Solana''"
proof (cases "meta t")
  case None
  with assms show ?thesis by (simp add: simplify_transaction_def)
next
  case m: (Some m)
  show ?thesis
  proof (cases "preTokenBalances m")
    case None
    with assms m show ?thesis by (simp add: simplify_transaction_def)
  next
    case pre: (Some pre)
    show ?thesis
    proof (cases "postTokenBalances m")
      case None
      with assms m pre show ?thesis by (simp add: simplify_transaction_def)
    next
      case post: (Some post)
      show ?thesis
      proof (cases "case blockTime t of
          None \<Rightarrow> Inr None
        | Some T \<Rightarrow>
            if T = 0 then Inr None
            else (case toISOString c (T * 1000) of
                    Inl err \<Rightarrow> Inl err
                  | Inr rendered \<Rightarrow> Inr (Some rendered))")
        case (Inl err)
        with assms m pre post show ?thesis by (simp add: simplify_transaction_def)
      next
        case (Inr ts)
        with assms m pre post have "timestamp r = ts \<and> transaction_hash r = signature si
            \<and> wallet_address r = w \<and> network r = ''Solana''"
          by (auto simp add: simplify_transaction_def)
        with m pre post Inr that show ?thesis by blast
      qed
    qed
  qed
qed

lemma simplified_timestamp:
  assumes "simplify_transaction c w si t = Inr r"
  shows "timestamp r =
     (case blockTime t of
        None \<Rightarrow> None
      | Some T \<Rightarrow> if T = 0 then None
                  else (case toISOString c (T * 1000) of
                          Inl err \<Rightarrow> None | Inr rendered \<Rightarrow> Some rendered))"
proof -
  from assms obtain ts where
    "(case blockTime t of
        None \<Rightarrow> Inr None
      | Some T \<Rightarrow>
          if T = 0 then Inr None
          else (case toISOString c (T * 1000) of
                  Inl err \<Rightarrow> Inl err
                | Inr rendered \<Rightarrow> Inr (Some rendered))) = Inr ts" "timestamp r = ts"
    by (rule simplified_Inr)
  then show ?thesis
    by (auto split: option.splits if_splits sum.splits)
qed

lemma records_in_listing_order:
  "subseq (map transaction_hash (fetched_records (simplify_transaction c w) c sigs h))
          (map signature sigs)"
proof (induction sigs arbitrary: h)
  case Nil
  show ?case by simp
next
  case (Cons si rest)
  obtain res h' where f: "fetchTransactionWithBackoff c (signature si) 1 h = (res, h')"
    by (cases "fetchTransactionWithBackoff c (signature si) 1 h")
  show ?case
  proof (cases res)
    case (Inl err)
    with f Cons show ?thesis by (simp add: list_emb_Cons)
  next
    case (Inr got)
    show ?thesis
    proof (cases got)
      case None
      with f Inr Cons show ?thesis by (simp add: list_emb_Cons)
    next
      case (Some t)
      show ?thesis
      proof (cases "simplify_transaction c w si t")
        case (Inl err)
        with f Inr Some Cons show ?thesis by (simp add: list_emb_Cons)
      next
        case r: (Inr r)
        then have "transaction_hash r = signature si" by (rule simplified_Inr)
        with f Inr Some r Cons show ?thesis by simp
      qed
    qed
  qed
qed

lemma epoch: "Date_toISOString 0 = Inr ''1970-01-01T00:00:00.000Z''"
proof -
  have y: "year_of_era 135080 = 369"
    by (simp add: year_of_era_def)
  have doy: "day_of_year 135080 = 306"
    by (simp add: day_of_year_def y)
  have mp: "month_from_march 135080 = 10"
    by (simp add: month_from_march_def doy)
  have m: "month_of_year 135080 = 1"
    by (simp add: month_of_year_def mp)
  have d: "day_of_month 135080 = 1"
    by (simp add: day_of_month_def doy mp)
  have yr: "year_of_day 719468 = 1970"
    by (simp add: year_of_day_def y m)
  show ?thesis
    by (simp add: Date_toISOString_def yr m d render_year_def render_time_def digits_def)
qed

section \<open>Runs against the fake client\<close>

lemma unreliable_bad:
  "fetchTransactionWithBackoff (fake_client listing unreliable) ''bad'' 1 h
     = (Inl (Error ''Network request failed''), h @ [Call_getParsedTransaction ''bad''])"
  by (rule fetch_rethrown)
     (simp_all add: fake_client_def unreliable_def version_not_supported_def)

lemma unreliable_bare:
  "fetchTransactionWithBackoff (fake_client listing unreliable) ''bare'' 1 h
     = (Inr (Some ((fake_transaction None)\<lparr>meta := None\<rparr>)),
        h @ [Call_getParsedTransaction ''bare''])"
  by (rule fetch_resolved) (simp_all add: fake_client_def unreliable_def)

lemma unreliable_ok:
  "sg \<noteq> ''bad'' \<Longrightarrow> sg \<noteq> ''bare'' \<Longrightarrow>
   fetchTransactionWithBackoff (fake_client listing unreliable) sg 1 h
     = (Inr (Some (fake_transaction None)), h @ [Call_getParsedTransaction sg])"
  by (rule fetch_resolved) (simp_all add: fake_client_def unreliable_def)

lemma bare_not_simplified:
  "simplify_transaction c w si ((fake_transaction None)\<lparr>meta := None\<rparr>)
     = Inl (TypeError ''Cannot read properties of null (reading 'preTokenBalances')'')"
  by (simp add: simplify_transaction_def fake_transaction_def)

lemma fake_simplified:
  "simplify_transaction c w si (fake_transaction None)
     = Inr \<lparr> uuid = None, network = ''Solana'', out_fee = 5000,
             compute_units_consumed = 150, timestamp = None, out_type = ''transfer'',
             wallet_address = w, transaction_hash = signature si,
             token = \<lparr> token_uuid = None, token_network = ''Solana'',
                       contract_address = None, token_name = ''solana'',
                       token_symbol = ''sol'', token_decimals = 0,
                       display_decimals = 2 \<rparr> \<rparr>"
  by (simp add: simplify_transaction_def fake_transaction_def)

lemma healthy_fetch:
  "getParsedTransaction (fake_client listing (throttled 0)) h sg
     = Inr (Some (fake_transaction None))"
  by (simp add: fake_client_def throttled_def)

lemma healthy_records:
  "fetched_records nz (fake_client listing (throttled 0)) sigs h
     = map (\<lambda>si. projr (nz si (fake_transaction None))) sigs"
  if "\<And>si. \<not> isl (nz si (fake_transaction None))"
proof (rule records_all_succeed)
  show "getParsedTransaction (fake_client listing (throttled 0)) h sg
     = Inr (Some (fake_transaction None))" for h sg
    by (rule healthy_fetch)
  show "nz si (fake_transaction None) = Inr (projr (nz si (fake_transaction None)))" for si
    using that [of si] by (cases "nz si (fake_transaction None)") simp_all
qed

section \<open>A transaction the node does not have\<close>

text \<open>
  C10. When the detail request completes but yields \<^verbatim>\<open>null\<close>,
  \<^verbatim>\<open>fetchTransactionWithBackoff\<close> returns that \<^verbatim>\<open>null\<close> at once: one request, no
  retry, no sleep. The loop that started the fetch appends no record and goes on with the
  remaining signatures. Retry exhaustion (the invocation with attempt 11) returns the same
  \<^verbatim>\<open>null\<close> and is treated by the loop in the same way, so the output does not tell the
  two apart; they differ by the exhaustion line in the log.
\<close>

theorem null_transaction_skipped:
  assumes "attempt \<le> 10" and "getParsedTransaction c h sg = Inr None"
  shows "fetchTransactionWithBackoff c sg attempt h = (Inr None, h @ [Call_getParsedTransaction sg])
       \<and> sleeps (drop (length h) (snd (fetchTransactionWithBackoff c sg attempt h))) = []
       \<and> fetched (drop (length h) (snd (fetchTransactionWithBackoff c sg attempt h))) = [sg]
       \<and> (fetchTransactionWithBackoff c (signature si) 1 h0
             = fetchTransactionWithBackoff c sg attempt h
           \<longrightarrow> getTransactions_loop nz c (si # rest) txs h0
             = getTransactions_loop nz c rest txs (h @ [Call_getParsedTransaction sg]))
       \<and> fst (fetchTransactionWithBackoff c2 sg2 11 h2) = Inr None
       \<and> (fetchTransactionWithBackoff c2 (signature si2) 1 h3
             = fetchTransactionWithBackoff c2 sg2 11 h2
           \<longrightarrow> getTransactions_loop nz2 c2 (si2 # rest2) txs2 h3
             = getTransactions_loop nz2 c2 rest2 txs2 (h2 @ [Log_max_retry sg2]))"
  using fetch_resolved [OF assms] by (simp add: fetch_exhausted)

theorem null_transaction_skipped_witness:
  "fetchTransactionWithBackoff (fake_client (rejected ''down'') (\<lambda>h sg. Inr None)) ''5h6x'' 1 []
     = (Inr None, [Call_getParsedTransaction ''5h6x''])
   \<and> getTransactions_loop simplify_transaction_index
        (fake_client (rejected ''down'') (\<lambda>h sg. Inr None)) [\<lparr>signature = ''5h6x''\<rparr>] [] []
     = ([], [Call_getParsedTransaction ''5h6x''])
   \<and> fst (getTransactions_loop simplify_transaction_index
        (fake_client (rejected ''down'') (rejected version_not_supported))
        [\<lparr>signature = ''5h6x''\<rparr>] [] []) = []"
proof -
  let ?c = "fake_client (rejected ''down'') (\<lambda>h sg. Inr None)"
  let ?v = "fake_client (rejected ''down'') (rejected version_not_supported)"
  let ?h2 = "[Call_getParsedTransaction ''5h6x'', Log_version_retry 500, Sleep 500,
           Call_getParsedTransaction ''5h6x'', Log_version_retry 1000, Sleep 1000,
           Call_getParsedTransaction ''5h6x'', Log_version_retry 2000, Sleep 2000,
           Call_getParsedTransaction ''5h6x'', Log_version_retry 4000, Sleep 4000,
           Call_getParsedTransaction ''5h6x'', Log_version_retry 8000, Sleep 8000,
           Call_getParsedTransaction ''5h6x'', Log_version_retry 16000, Sleep 16000,
           Call_getParsedTransaction ''5h6x'', Log_version_retry 16000, Sleep 16000,
           Call_getParsedTransaction ''5h6x'', Log_version_retry 16000, Sleep 16000,
           Call_getParsedTransaction ''5h6x'', Log_version_retry 16000, Sleep 16000,
           Call_getParsedTransaction ''5h6x'', Log_version_retry 16000, Sleep 16000]"
  have one: "(1::int) \<le> 10" by simp
  have a: "getParsedTransaction ?c [] ''5h6x'' = Inr None"
    by (simp add: fake_client_def)
  have "\<forall>h. \<exists>err. getParsedTransaction ?v h ''5h6x'' = Inl err
          \<and> str_includes (message err) version_not_supported"
    by (simp add: fake_client_def rejected_def str_includes_self)
  from version_exhaustion [OF this, of "[]"]
  have reach: "fetchTransactionWithBackoff ?v (signature \<lparr>signature = ''5h6x''\<rparr>) 1 []
      = fetchTransactionWithBackoff ?v ''5h6x'' 11 ?h2"
    by (simp add: fetch_exhausted)
  from null_transaction_skipped [OF one a, of "\<lparr>signature = ''5h6x''\<rparr>" "[]"
      simplify_transaction_index "[]" "[]" ?v "''5h6x''" ?h2 "\<lparr>signature = ''5h6x''\<rparr>" "[]"
      simplify_transaction_index "[]" "[]"] reach
  show ?thesis by simp
qed

section \<open>An address that is no public key\<close>

text \<open>
  C4. For a wallet address on which the \<^verbatim>\<open>PublicKey\<close> constructor throws,
  \<^verbatim>\<open>getTransactions\<close> fails with the error \<^verbatim>\<open>Invalid wallet address\<close> and the trace
  is what it was before the call: neither \<^verbatim>\<open>getSignaturesForAddress\<close> nor
  \<^verbatim>\<open>getParsedTransaction\<close> has been called. The variant in \<^verbatim>\<open>index.js\<close> fails with
  the constructor's own error, before any network call as well.
\<close>

theorem invalid_address_no_network:
  assumes "PublicKey_new c walletAddress = Inl err"
  shows "\<not> isValidSolanaPublicKey c walletAddress
       \<and> getTransactions c walletAddress h = (Inl (Error ''Invalid wallet address''), h)
       \<and> getTransactions_index c walletAddress h = (Inl err, h)"
  using assms
  by (simp add: isValidSolanaPublicKey_def getTransactions_def getTransactions_index_def)

theorem invalid_address_no_network_witness:
  "getTransactions (fake_client (rejected ''down'') (throttled 0)) [] []
     = (Inl (Error ''Invalid wallet address''), [])
   \<and> getTransactions_index (fake_client (rejected ''down'') (throttled 0)) [] []
     = (Inl (Error ''Invalid public key input''), [])"
proof -
  have "PublicKey_new (fake_client (rejected ''down'') (throttled 0)) []
      = Inl (Error ''Invalid public key input'')"
    by (simp add: fake_client_def)
  from invalid_address_no_network [OF this] show ?thesis by blast
qed

section \<open>Failures of one signature and failures of the listing\<close>

text \<open>
  C7. A failure while fetching or simplifying one signature is caught and logged with
  \<^verbatim>\<open>console.error\<close>, and the loop continues with the next signature: as long as the
  result holds fewer than 100 records, every listed signature has been requested, in
  listing order, and \<^verbatim>\<open>getTransactions\<close> returns a result whenever the listing
  succeeded. An error of the one \<^verbatim>\<open>getSignaturesForAddress\<close> call is not retried: it is
  logged and \<^verbatim>\<open>getTransactions\<close> fails with \<^verbatim>\<open>Failed to fetch signatures\<close> without
  any detail request.
\<close>

theorem failures_stay_local:
  "(fetchTransactionWithBackoff c (signature si) 1 h = (Inl err, h')
      \<longrightarrow> getTransactions_loop nz c (si # rest) txs h
        = getTransactions_loop nz c rest txs
            (h' @ [Error_failed_transaction (signature si) err]))
   \<and> (fetchTransactionWithBackoff c2 (signature si2) 1 h2 = (Inr (Some t2), h2')
        \<and> nz2 si2 t2 = Inl err2
      \<longrightarrow> getTransactions_loop nz2 c2 (si2 # rest2) txs2 h2
        = getTransactions_loop nz2 c2 rest2 txs2
            (h2' @ [Error_failed_transaction (signature si2) err2]))
   \<and> (length (fst (getTransactions_loop nz3 c3 sigs3 txs3 h3)) < 100
      \<longrightarrow> (\<exists>evs. snd (getTransactions_loop nz3 c3 sigs3 txs3 h3) = h3 @ evs
                 \<and> subseq (map signature sigs3) (fetched evs)))
   \<and> (PublicKey_new c4 w4 = Inr pk4 \<and> getSignaturesForAddress c4 h4 pk4 = Inr sigs4
      \<longrightarrow> (\<exists>txs4 h4'. getTransactions c4 w4 h4 = (Inr txs4, h4')))
   \<and> (PublicKey_new c5 w5 = Inr pk5 \<and> getSignaturesForAddress c5 h5 pk5 = Inl err5
      \<longrightarrow> getTransactions c5 w5 h5
        = (Inl (Error ''Failed to fetch signatures''),
           h5 @ [Call_getSignaturesForAddress pk5, Error_failed_signatures err5]))"
proof (intro conjI impI)
  assume "fetchTransactionWithBackoff c (signature si) 1 h = (Inl err, h')"
  then show "getTransactions_loop nz c (si # rest) txs h
        = getTransactions_loop nz c rest txs
            (h' @ [Error_failed_transaction (signature si) err])"
    by (rule loop_caught)
next
  assume "fetchTransactionWithBackoff c2 (signature si2) 1 h2 = (Inr (Some t2), h2')
        \<and> nz2 si2 t2 = Inl err2"
  then show "getTransactions_loop nz2 c2 (si2 # rest2) txs2 h2
        = getTransactions_loop nz2 c2 rest2 txs2
            (h2' @ [Error_failed_transaction (signature si2) err2])"
    by (simp add: loop_normalize_failed)
next
  assume "length (fst (getTransactions_loop nz3 c3 sigs3 txs3 h3)) < 100"
  then show "\<exists>evs. snd (getTransactions_loop nz3 c3 sigs3 txs3 h3) = h3 @ evs
                 \<and> subseq (map signature sigs3) (fetched evs)"
    by (rule loop_visits_all)
next
  assume "PublicKey_new c4 w4 = Inr pk4 \<and> getSignaturesForAddress c4 h4 pk4 = Inr sigs4"
  then show "\<exists>txs4 h4'. getTransactions c4 w4 h4 = (Inr txs4, h4')"
    by (simp add: getTransactions_def isValidSolanaPublicKey_def split: prod.splits)
next
  assume "PublicKey_new c5 w5 = Inr pk5 \<and> getSignaturesForAddress c5 h5 pk5 = Inl err5"
  then show "getTransactions c5 w5 h5
        = (Inl (Error ''Failed to fetch signatures''),
           h5 @ [Call_getSignaturesForAddress pk5, Error_failed_signatures err5])"
    by (simp add: getTransactions_def isValidSolanaPublicKey_def)
qed

theorem failures_stay_local_witness:
  "getTransactions
     (fake_client (\<lambda>h pk. Inr [\<lparr>signature = ''bad''\<rparr>, \<lparr>signature = ''bare''\<rparr>,
                               \<lparr>signature = ''5h6x''\<rparr>]) unreliable) ''w'' []
     = (Inr [\<lparr> uuid = None, network = ''Solana'', out_fee = 5000,
                compute_units_consumed = 150, timestamp = None, out_type = ''transfer'',
                wallet_address = ''w'', transaction_hash = ''5h6x'',
                token = \<lparr> token_uuid = None, token_network = ''Solana'',
                          contract_address = None, token_name = ''solana'',
                          token_symbol = ''sol'', token_decimals = 0,
                          display_decimals = 2 \<rparr> \<rparr>],
        [Call_getSignaturesForAddress ''w'',
         Call_getParsedTransaction ''bad'',
         Error_failed_transaction ''bad'' (Error ''Network request failed''),
         Call_getParsedTransaction ''bare'',
         Error_failed_transaction ''bare''
           (TypeError ''Cannot read properties of null (reading 'preTokenBalances')''),
         Call_getParsedTransaction ''5h6x''])
   \<and> subseq [''bad'', ''bare'', ''5h6x'']
        (fetched (snd (getTransactions
           (fake_client (\<lambda>h pk. Inr [\<lparr>signature = ''bad''\<rparr>, \<lparr>signature = ''bare''\<rparr>,
                                     \<lparr>signature = ''5h6x''\<rparr>]) unreliable) ''w'' [])))
   \<and> getTransactions (fake_client (rejected ''down'') unreliable) ''w'' []
     = (Inl (Error ''Failed to fetch signatures''),
        [Call_getSignaturesForAddress ''w'', Error_failed_signatures (Error ''down'')])"
proof -
  let ?sigs = "[\<lparr>signature = ''bad''\<rparr>, \<lparr>signature = ''bare''\<rparr>, \<lparr>signature = ''5h6x''\<rparr>]"
  let ?c = "fake_client (\<lambda>h pk. Inr ?sigs) unreliable"
  let ?d = "fake_client (rejected ''down'') unreliable"
  let ?nz = "simplify_transaction ?c ''w''"
  let ?h1 = "[Call_getSignaturesForAddress ''w'']"
  let ?h2 = "?h1 @ [Call_getParsedTransaction ''bad'',
      Error_failed_transaction ''bad'' (Error ''Network request failed'')]"
  let ?h3 = "?h2 @ [Call_getParsedTransaction ''bare'',
      Error_failed_transaction ''bare''
        (TypeError ''Cannot read properties of null (reading 'preTokenBalances')'')]"
  note claim = failures_stay_local [of
      ?c "\<lparr>signature = ''bad''\<rparr>" ?h1 "Error ''Network request failed''"
      "?h1 @ [Call_getParsedTransaction ''bad'']" ?nz
      "[\<lparr>signature = ''bare''\<rparr>, \<lparr>signature = ''5h6x''\<rparr>]" "[]"
      ?c "\<lparr>signature = ''bare''\<rparr>" ?h2 "(fake_transaction None)\<lparr>meta := None\<rparr>"
      "?h2 @ [Call_getParsedTransaction ''bare'']" ?nz
      "TypeError ''Cannot read properties of null (reading 'preTokenBalances')''"
      "[\<lparr>signature = ''5h6x''\<rparr>]" "[]"
      ?nz ?c ?sigs "[]" ?h1
      ?c "''w''" "''w''" "[]" ?sigs
      ?d "''w''" "''w''" "[]" "Error ''down''"]
  have pk: "PublicKey_new ?c ''w'' = Inr ''w''" "PublicKey_new ?d ''w'' = Inr ''w''"
    by (simp_all add: fake_client_def)
  have listed: "getSignaturesForAddress ?c [] ''w'' = Inr ?sigs"
    by (simp add: fake_client_def)
  have down: "getSignaturesForAddress ?d [] ''w'' = Inl (Error ''down'')"
    by (simp add: fake_client_def rejected_def)
  have last: "getTransactions_loop ?nz ?c [\<lparr>signature = ''5h6x''\<rparr>] [] ?h3
      = ([\<lparr> uuid = None, network = ''Solana'', out_fee = 5000,
                compute_units_consumed = 150, timestamp = None, out_type = ''transfer'',
                wallet_address = ''w'', transaction_hash = ''5h6x'',
                token = \<lparr> token_uuid = None, token_network = ''Solana'',
                          contract_address = None, token_name = ''solana'',
                          token_symbol = ''sol'', token_decimals = 0,
                          display_decimals = 2 \<rparr> \<rparr>],
         ?h3 @ [Call_getParsedTransaction ''5h6x''])"
    by (simp add: unreliable_ok fake_simplified)
  have step1: "getTransactions_loop ?nz ?c ?sigs [] ?h1
      = getTransactions_loop ?nz ?c [\<lparr>signature = ''bare''\<rparr>, \<lparr>signature = ''5h6x''\<rparr>] [] ?h2"
    using claim by (simp add: unreliable_bad)
  have step2: "getTransactions_loop ?nz ?c [\<lparr>signature = ''bare''\<rparr>, \<lparr>signature = ''5h6x''\<rparr>] [] ?h2
      = getTransactions_loop ?nz ?c [\<lparr>signature = ''5h6x''\<rparr>] [] ?h3"
    using claim by (simp add: unreliable_bare bare_not_simplified)
  have run: "getTransactions_loop ?nz ?c ?sigs [] ?h1
      = ([\<lparr> uuid = None, network = ''Solana'', out_fee = 5000,
                compute_units_consumed = 150, timestamp = None, out_type = ''transfer'',
                wallet_address = ''w'', transaction_hash = ''5h6x'',
                token = \<lparr> token_uuid = None, token_network = ''Solana'',
                          contract_address = None, token_name = ''solana'',
                          token_symbol = ''sol'', token_decimals = 0,
                          display_decimals = 2 \<rparr> \<rparr>],
         ?h3 @ [Call_getParsedTransaction ''5h6x''])"
    using step1 step2 last by (simp only:)
  have whole: "getTransactions ?c ''w'' [] = (Inr (fst (getTransactions_loop ?nz ?c ?sigs [] ?h1)),
      snd (getTransactions_loop ?nz ?c ?sigs [] ?h1))"
    using pk(1) listed
    by (simp add: getTransactions_def isValidSolanaPublicKey_def split: prod.splits)
  have visited: "subseq [''bad'', ''bare'', ''5h6x'']
      (fetched (snd (getTransactions_loop ?nz ?c ?sigs [] ?h1)))"
    using claim run by (simp add: fetched_append)
  have refused: "getTransactions ?d ''w'' []
     = (Inl (Error ''Failed to fetch signatures''),
        [Call_getSignaturesForAddress ''w'', Error_failed_signatures (Error ''down'')])"
    using claim pk(2) down by simp
  from whole run visited refused show ?thesis by simp
qed

section \<open>The cap of 100 records\<close>

lemma getTransactions_listed:
  assumes "PublicKey_new c w = Inr pk" and "getSignaturesForAddress c h pk = Inr sigs"
  shows "getTransactions c w h
     = (Inr (fst (getTransactions_loop (simplify_transaction c w) c sigs []
                    (h @ [Call_getSignaturesForAddress pk]))),
        snd (getTransactions_loop (simplify_transaction c w) c sigs []
               (h @ [Call_getSignaturesForAddress pk])))"
  using assms
  by (simp add: getTransactions_def isValidSolanaPublicKey_def split: prod.splits)

lemma getTransactions_index_listed:
  assumes "PublicKey_new c w = Inr pk" and "getSignaturesForAddress c h pk = Inr sigs"
  shows "getTransactions_index c w h
     = (Inr (fst (getTransactions_loop simplify_transaction_index c sigs []
                    (h @ [Call_getSignaturesForAddress pk]))),
        snd (getTransactions_loop simplify_transaction_index c sigs []
               (h @ [Call_getSignaturesForAddress pk])))"
  using assms
  by (simp add: getTransactions_index_def split: prod.splits)

lemma loop_at_most_100:
  "length (fst (getTransactions_loop nz c sigs [] h)) \<le> 100"
  by (simp add: loop_take)

lemma getTransactions_at_most_100:
  assumes "fst (getTransactions c w h) = Inr txs"
  shows "length txs \<le> 100"
proof (cases "PublicKey_new c w")
  case (Inl err)
  with assms show ?thesis
    by (simp add: getTransactions_def isValidSolanaPublicKey_def)
next
  case pk: (Inr pk)
  show ?thesis
  proof (cases "getSignaturesForAddress c h pk")
    case (Inl err)
    with assms pk show ?thesis
      by (simp add: getTransactions_def isValidSolanaPublicKey_def)
  next
    case (Inr sigs)
    from getTransactions_listed [OF pk Inr] assms
    have "txs = fst (getTransactions_loop (simplify_transaction c w) c sigs []
                    (h @ [Call_getSignaturesForAddress pk]))" by simp
    then show ?thesis by (simp add: loop_at_most_100)
  qed
qed

lemma getTransactions_index_at_most_100:
  assumes "fst (getTransactions_index c w h) = Inr txs"
  shows "length txs \<le> 100"
proof (cases "PublicKey_new c w")
  case (Inl err)
  with assms show ?thesis
    by (simp add: getTransactions_index_def)
next
  case pk: (Inr pk)
  show ?thesis
  proof (cases "getSignaturesForAddress c h pk")
    case (Inl err)
    with assms pk show ?thesis
      by (simp add: getTransactions_index_def)
  next
    case (Inr sigs)
    from getTransactions_index_listed [OF pk Inr] assms
    have "txs = fst (getTransactions_loop simplify_transaction_index c sigs []
                    (h @ [Call_getSignaturesForAddress pk]))" by simp
    then show ?thesis by (simp add: loop_at_most_100)
  qed
qed

text \<open>
  C3. Whatever signatures are listed, the result of \<^verbatim>\<open>getTransactions\<close> has at most
  100 records, and once the 100th record is collected the loop ends: signatures listed
  after that point change neither the result nor the trace, so none of them is fetched.
\<close>

theorem at_most_100_records:
  "length (fst (getTransactions_loop nz c sigs [] h)) \<le> 100
   \<and> (fst (getTransactions c1 w1 h1) = Inr txs1 \<longrightarrow> length txs1 \<le> 100)
   \<and> (fst (getTransactions_index c2 w2 h2) = Inr txs2 \<longrightarrow> length txs2 \<le> 100)
   \<and> (length (fst (getTransactions_loop nz3 c3 pre [] h3)) = 100
      \<longrightarrow> getTransactions_loop nz3 c3 (pre @ rest) [] h3
        = getTransactions_loop nz3 c3 pre [] h3)"
  using loop_at_most_100 [of nz c sigs h] getTransactions_at_most_100 [of c1 w1 h1 txs1]
    getTransactions_index_at_most_100 [of c2 w2 h2 txs2]
    loop_stops [of "[]" nz3 c3 pre h3 rest]
  by simp

theorem at_most_100_records_witness:
  "length (fst (getTransactions_loop simplify_transaction_index
       (fake_client (\<lambda>h pk. Inr (replicate 101 \<lparr>signature = ''5h6x''\<rparr>)) (throttled 0))
       (replicate 100 \<lparr>signature = ''5h6x''\<rparr>) [] [])) = 100
   \<and> getTransactions_loop simplify_transaction_index
       (fake_client (\<lambda>h pk. Inr (replicate 101 \<lparr>signature = ''5h6x''\<rparr>)) (throttled 0))
       (replicate 100 \<lparr>signature = ''5h6x''\<rparr> @ [\<lparr>signature = ''late''\<rparr>]) [] []
     = getTransactions_loop simplify_transaction_index
       (fake_client (\<lambda>h pk. Inr (replicate 101 \<lparr>signature = ''5h6x''\<rparr>)) (throttled 0))
       (replicate 100 \<lparr>signature = ''5h6x''\<rparr>) [] []
   \<and> (\<exists>txs. fst (getTransactions
         (fake_client (\<lambda>h pk. Inr (replicate 101 \<lparr>signature = ''5h6x''\<rparr>)) (throttled 0))
         ''w'' []) = Inr txs \<and> length txs = 100)
   \<and> (\<exists>txs. fst (getTransactions_index
         (fake_client (\<lambda>h pk. Inr (replicate 101 \<lparr>signature = ''5h6x''\<rparr>)) (throttled 0))
         ''w'' []) = Inr txs \<and> length txs = 100)"
proof -
  let ?s = "\<lparr>signature = ''5h6x''\<rparr>"
  let ?c = "fake_client (\<lambda>h pk. Inr (replicate 101 ?s)) (throttled 0)"
  have pk: "PublicKey_new ?c ''w'' = Inr ''w''"
    by (simp add: fake_client_def)
  have listed: "getSignaturesForAddress ?c [] ''w'' = Inr (replicate 101 ?s)"
    by (simp add: fake_client_def)
  have ok_index: "\<not> isl (simplify_transaction_index si (fake_transaction None))" for si
    by (simp add: simplify_transaction_index_def)
  have ok: "\<not> isl (simplify_transaction ?c ''w'' si (fake_transaction None))" for si
    by (simp add: fake_simplified)
  have full: "length (fst (getTransactions_loop simplify_transaction_index ?c
                (replicate 100 ?s) [] [])) = 100"
    by (simp add: loop_take healthy_records [where nz = simplify_transaction_index, OF ok_index])
  obtain txs where txs: "fst (getTransactions ?c ''w'' []) = Inr txs" "length txs = 100"
    by (simp add: getTransactions_listed [OF pk listed] loop_take healthy_records [where nz = "simplify_transaction ?c ''w''", OF ok])
  obtain txs' where txs': "fst (getTransactions_index ?c ''w'' []) = Inr txs'" "length txs' = 100"
    by (simp add: getTransactions_index_listed [OF pk listed] loop_take
          healthy_records [where nz = simplify_transaction_index, OF ok_index])
  from at_most_100_records [of simplify_transaction_index ?c "replicate 100 ?s" "[]"
      ?c "''w''" "[]" txs ?c "''w''" "[]" txs' simplify_transaction_index ?c
      "replicate 100 ?s" "[]" "[\<lparr>signature = ''late''\<rparr>]"] full txs txs'
  show ?thesis by simp
qed

section \<open>The order of the output\<close>

lemma take_records_in_listing_order:
  "subseq (map transaction_hash (take n (fetched_records (simplify_transaction c w) c sigs h)))
          (map signature sigs)"
proof -
  have "subseq (take n (map transaction_hash (fetched_records (simplify_transaction c w) c sigs h)))
          (map transaction_hash (fetched_records (simplify_transaction c w) c sigs h))"
    by (rule prefix_imp_subseq) (rule take_is_prefix)
  from subseq_order.trans [OF this records_in_listing_order] show ?thesis
    by (simp add: take_map)
qed

text \<open>
  C9. The result of \<^verbatim>\<open>getTransactions\<close> is the sequence of the simplified records of
  the signatures that were fetched and simplified, in the order in which the listing
  returned them, cut after 100 records. In \<^verbatim>\<open>part_000\<close> each record carries the
  signature it was fetched for, so the signatures of the output are a subsequence of the
  listed ones. When the node's answer for a signature does not depend on what happened
  before, the result is the listing mapped to the records of its signatures, those without
  a record left out, cut after 100 records.
\<close>

theorem records_in_listed_order:
  "fst (getTransactions_loop nz c sigs [] h) = take 100 (fetched_records nz c sigs h)
   \<and> (PublicKey_new c1 w = Inr pk \<and> getSignaturesForAddress c1 h1 pk = Inr sigs1
      \<longrightarrow> fst (getTransactions c1 w h1)
            = Inr (take 100 (fetched_records (simplify_transaction c1 w) c1 sigs1
                               (h1 @ [Call_getSignaturesForAddress pk])))
        \<and> fst (getTransactions_index c1 w h1)
            = Inr (take 100 (fetched_records simplify_transaction_index c1 sigs1
                               (h1 @ [Call_getSignaturesForAddress pk])))
        \<and> subseq (map transaction_hash
                     (take 100 (fetched_records (simplify_transaction c1 w) c1 sigs1
                                  (h1 @ [Call_getSignaturesForAddress pk]))))
                  (map signature sigs1))
   \<and> ((\<forall>sg k k'. getParsedTransaction c2 k sg = getParsedTransaction c2 k' sg)
      \<longrightarrow> fst (getTransactions_loop nz2 c2 sigs2 [] h2)
            = take 100 (List.map_filter (record_of nz2 c2) sigs2))"
proof -
  have "fst (getTransactions_loop nz2 c2 sigs2 [] h2)
            = take 100 (List.map_filter (record_of nz2 c2) sigs2)"
    if "\<forall>sg k k'. getParsedTransaction c2 k sg = getParsedTransaction c2 k' sg"
    using that by (simp add: loop_take fetched_records_stateless)
  then show ?thesis
    by (simp add: loop_take getTransactions_listed getTransactions_index_listed
          take_records_in_listing_order)
qed

theorem records_in_listed_order_witness:
  "(\<exists>txs. fst (getTransactions
        (fake_client (\<lambda>h pk. Inr [\<lparr>signature = ''bad''\<rparr>, \<lparr>signature = ''3kq9''\<rparr>,
                                  \<lparr>signature = ''bare''\<rparr>, \<lparr>signature = ''5h6x''\<rparr>])
           unreliable) ''w'' []) = Inr txs
      \<and> map transaction_hash txs = [''3kq9'', ''5h6x''])
   \<and> (\<exists>txs. fst (getTransactions_index
        (fake_client (\<lambda>h pk. Inr [\<lparr>signature = ''bad''\<rparr>, \<lparr>signature = ''3kq9''\<rparr>,
                                  \<lparr>signature = ''bare''\<rparr>, \<lparr>signature = ''5h6x''\<rparr>])
           unreliable) ''w'' []) = Inr txs
      \<and> map meta_index txs
          = [meta (fake_transaction None), None, meta (fake_transaction None)])
   \<and> map meta_index (take 100 (List.map_filter
        (record_of simplify_transaction_index
           (fake_client (\<lambda>h pk. Inr [\<lparr>signature = ''bad''\<rparr>, \<lparr>signature = ''3kq9''\<rparr>,
                                     \<lparr>signature = ''bare''\<rparr>, \<lparr>signature = ''5h6x''\<rparr>])
              unreliable))
        [\<lparr>signature = ''bad''\<rparr>, \<lparr>signature = ''3kq9''\<rparr>,
         \<lparr>signature = ''bare''\<rparr>, \<lparr>signature = ''5h6x''\<rparr>]))
     = [meta (fake_transaction None), None, meta (fake_transaction None)]"
proof -
  let ?sigs = "[\<lparr>signature = ''bad''\<rparr>, \<lparr>signature = ''3kq9''\<rparr>,
                \<lparr>signature = ''bare''\<rparr>, \<lparr>signature = ''5h6x''\<rparr>]"
  let ?c = "fake_client (\<lambda>h pk. Inr ?sigs) unreliable"
  have pk: "PublicKey_new ?c ''w'' = Inr ''w''"
    by (simp add: fake_client_def)
  have listed: "getSignaturesForAddress ?c [] ''w'' = Inr ?sigs"
    by (simp add: fake_client_def)
  have stateless: "\<forall>sg k k'. getParsedTransaction ?c k sg = getParsedTransaction ?c k' sg"
    by (simp add: fake_client_def unreliable_def)
  have recs: "map transaction_hash
      (fetched_records (simplify_transaction ?c ''w'') ?c ?sigs
         ([] @ [Call_getSignaturesForAddress ''w''])) = [''3kq9'', ''5h6x'']"
    by (simp add: unreliable_bad unreliable_bare unreliable_ok bare_not_simplified
          fake_simplified)
  have recs_index: "map meta_index
      (fetched_records simplify_transaction_index ?c ?sigs
         ([] @ [Call_getSignaturesForAddress ''w'']))
       = [meta (fake_transaction None), None, meta (fake_transaction None)]"
    by (simp add: unreliable_bad unreliable_bare unreliable_ok
          simplify_transaction_index_def)
  note claim = records_in_listed_order [of simplify_transaction_index ?c ?sigs
      "[] @ [Call_getSignaturesForAddress ''w'']" ?c "''w''" "''w''" "[]" ?sigs
      ?c simplify_transaction_index ?sigs "[] @ [Call_getSignaturesForAddress ''w'']"]
  from claim pk listed
  have a: "fst (getTransactions ?c ''w'' [])
          = Inr (take 100 (fetched_records (simplify_transaction ?c ''w'') ?c ?sigs
                             ([] @ [Call_getSignaturesForAddress ''w''])))"
    and b: "fst (getTransactions_index ?c ''w'' [])
          = Inr (take 100 (fetched_records simplify_transaction_index ?c ?sigs
                             ([] @ [Call_getSignaturesForAddress ''w''])))"
    by blast+
  from claim stateless
  have "take 100 (List.map_filter (record_of simplify_transaction_index ?c) ?sigs)
      = take 100 (fetched_records simplify_transaction_index ?c ?sigs
                             ([] @ [Call_getSignaturesForAddress ''w'']))"
    by metis
  with a b recs recs_index show ?thesis
    by (simp add: take_map [symmetric] del: append_Nil)
qed

section \<open>The timestamp of a record\<close>

text \<open>
  C6, at the block time 0. The specification asks for a timestamp whenever the transaction
  carries a block time \<open>T\<close>, rendered from \<open>T * 1000\<close> milliseconds. For the block time 0
  (the epoch) the record has no timestamp, although the transaction carries a block time
  and its rendering exists: the test \<^verbatim>\<open>transaction.blockTime ? ... : null\<close> takes 0 for
  absent. For every other block time the record is as specified, see
  \<open>simplified_timestamp\<close>.
\<close>

theorem block_time_zero_has_no_timestamp:
  "blockTime (fake_transaction (Some 0)) = Some 0
   \<and> map_sum id timestamp
       (simplify_transaction (fake_client (rejected ''down'') (throttled 0)) ''w''
          \<lparr>signature = ''5h6x''\<rparr> (fake_transaction (Some 0))) = Inr None
   \<and> toISOString (fake_client (rejected ''down'') (throttled 0)) (0 * 1000)
       = Inr ''1970-01-01T00:00:00.000Z''"
  by (simp add: simplify_transaction_def fake_transaction_def fake_client_def epoch)

end
